theory Spec2Isabelle
  imports Main "HOL-Library.Word"
begin

unbundle bit_operations_syntax

section \<open>Data model of \<^verbatim>\<open>lib/platform.h\<close>\<close>

text \<open>
  The bit-width arguments and fields are \<^verbatim>\<open>std::uint8_t\<close>, modelled as \<open>8 word\<close>.
  \<^verbatim>\<open>long long\<close> and \<^verbatim>\<open>unsigned long long\<close> (and \<^verbatim>\<open>MathLib::bigint\<close>,
  \<^verbatim>\<open>MathLib::biguint\<close>, which \<^verbatim>\<open>mathlib.h\<close> declares as these two types) are
  \<open>64 word\<close>: a signed value is read with \<open>sint\<close> and compared with \<open>\<le>s\<close>, an unsigned
  one is read with \<open>uint\<close> and compared with \<open>\<le>\<close>. A failing \<^verbatim>\<open>assert\<close> and a thrown
  \<^verbatim>\<open>std::runtime_error\<close> are values of \<open>error\<close>.
\<close>

datatype error = AssertionFailed | RuntimeError string

type_synonym uint8 = "8 word"
type_synonym longlong = "64 word"
type_synonym ulonglong = "64 word"
type_synonym bigint = "64 word"
type_synonym biguint = "64 word"

text \<open>\<^verbatim>\<open>LLONG_MIN\<close> of \<^verbatim>\<open>climits\<close> for a 64-bit \<^verbatim>\<open>long long\<close>: only the sign bit set.\<close>

definition LLONG_MIN :: longlong where
  "LLONG_MIN = push_bit 63 1"

text \<open>
  \<^verbatim>\<open>enum Type : std::uint8_t\<close>. The enumeration has a fixed underlying type, so an object
  of type \<^verbatim>\<open>Type\<close> can hold every \<^verbatim>\<open>std::uint8_t\<close> value; the enumerators are the
  values 0 to 7 in the order of declaration.
\<close>

type_synonym Type = "8 word"

definition Unspecified :: Type where "Unspecified = 0"
definition Native :: Type where "Native = 1"
definition Win32A :: Type where "Win32A = 2"
definition Win32W :: Type where "Win32W = 3"
definition Win64 :: Type where "Win64 = 4"
definition Unix32 :: Type where "Unix32 = 5"
definition Unix64 :: Type where "Unix64 = 6"
definition File :: Type where "File = 7"

lemmas Type_defs =
  Unspecified_def Native_def Win32A_def Win32W_def Win64_def Unix32_def Unix64_def File_def

text \<open>The data members of \<^verbatim>\<open>class Platform\<close>, in the order of declaration.\<close>

record Platform =
  char_bit :: uint8
  short_bit :: uint8
  int_bit :: uint8
  long_bit :: uint8
  long_long_bit :: uint8
  sizeof_bool :: nat
  sizeof_short :: nat
  sizeof_int :: nat
  sizeof_long :: nat
  sizeof_long_long :: nat
  sizeof_float :: nat
  sizeof_double :: nat
  sizeof_long_double :: nat
  sizeof_wchar_t :: nat
  sizeof_size_t :: nat
  sizeof_pointer :: nat
  defaultSign :: char
  type :: Type

section \<open>Range arithmetic\<close>

text \<open>
  \<^verbatim>\<open>min_value\<close>, \<^verbatim>\<open>max_value\<close>, \<^verbatim>\<open>max_value_unsigned\<close>. Each starts with
  \<^verbatim>\<open>assert(bit > 0)\<close>. In \<^verbatim>\<open>1LL << (bit-1)\<close> the operand \<^verbatim>\<open>bit\<close> is promoted to
  \<^verbatim>\<open>int\<close>; past the assertion and the test \<^verbatim>\<open>bit >= 64\<close> the shift count is between
  0 and 62, so the shift does not overflow. The assertion is taken as checked: a width
  of 0 ends the call with \<open>AssertionFailed\<close>. (With assertions compiled out,
  \<^verbatim>\<open>min_value(0)\<close> and \<^verbatim>\<open>max_value(0)\<close> would shift by \<^verbatim>\<open>-1\<close>, which C++ leaves
  undefined.)
\<close>

definition min_value :: "uint8 \<Rightarrow> error + longlong" where
  "min_value b =
     (if \<not> (b > 0) then Inl AssertionFailed
      else if b \<ge> 64 then Inr LLONG_MIN
      else Inr (- (push_bit (unat b - 1) 1)))"

definition max_value :: "uint8 \<Rightarrow> error + longlong" where
  "max_value b =
     (if \<not> (b > 0) then Inl AssertionFailed
      else if b \<ge> 64 then Inr (drop_bit 1 (NOT 0))
      else Inr (push_bit (unat b - 1) 1 - 1))"

definition max_value_unsigned :: "uint8 \<Rightarrow> error + ulonglong" where
  "max_value_unsigned b =
     (if \<not> (b > 0) then Inl AssertionFailed
      else if b \<ge> 64 then Inr (NOT 0)
      else Inr (push_bit (unat b) 1 - 1))"

section \<open>Range membership\<close>

text \<open>
  \<^verbatim>\<open>isIntValue\<close> and \<^verbatim>\<open>isLongValue\<close> are overloaded on \<^verbatim>\<open>MathLib::bigint\<close> and
  \<^verbatim>\<open>MathLib::biguint\<close>; the overloads carry the parameter type in their names here.
  In the signed overloads \<^verbatim>\<open>&&\<close> evaluates \<^verbatim>\<open>max_value\<close> only when the first comparison
  holds. In the unsigned overloads the result of \<^verbatim>\<open>max_value\<close> is converted to
  \<^verbatim>\<open>unsigned long long\<close>, which keeps the 64 bits, and the comparison is unsigned.
\<close>

definition isIntValue_bigint :: "Platform \<Rightarrow> bigint \<Rightarrow> error + bool" where
  "isIntValue_bigint p v =
     (case min_value (int_bit p) of
        Inl e \<Rightarrow> Inl e
      | Inr lo \<Rightarrow>
          if \<not> word_sle lo v then Inr False
          else (case max_value (int_bit p) of
                  Inl e \<Rightarrow> Inl e
                | Inr hi \<Rightarrow> Inr (word_sle v hi)))"

definition isIntValue_biguint :: "Platform \<Rightarrow> biguint \<Rightarrow> error + bool" where
  "isIntValue_biguint p v =
     (case max_value (int_bit p) of
        Inl e \<Rightarrow> Inl e
      | Inr intMax \<Rightarrow> Inr (v \<le> intMax))"

definition isLongValue_bigint :: "Platform \<Rightarrow> bigint \<Rightarrow> error + bool" where
  "isLongValue_bigint p v =
     (case min_value (long_bit p) of
        Inl e \<Rightarrow> Inl e
      | Inr lo \<Rightarrow>
          if \<not> word_sle lo v then Inr False
          else (case max_value (long_bit p) of
                  Inl e \<Rightarrow> Inl e
                | Inr hi \<Rightarrow> Inr (word_sle v hi)))"

definition isLongValue_biguint :: "Platform \<Rightarrow> biguint \<Rightarrow> error + bool" where
  "isLongValue_biguint p v =
     (case max_value (long_bit p) of
        Inl e \<Rightarrow> Inl e
      | Inr longMax \<Rightarrow> Inr (v \<le> longMax))"

definition isLongLongValue :: "Platform \<Rightarrow> biguint \<Rightarrow> error + bool" where
  "isLongLongValue p v =
     (case max_value (long_long_bit p) of
        Inl e \<Rightarrow> Inl e
      | Inr longLongMax \<Rightarrow> Inr (v \<le> longLongMax))"

section \<open>Identity tag queries\<close>

definition isWindows :: "Platform \<Rightarrow> bool" where
  "isWindows p = (type p = Win32A \<or> type p = Win32W \<or> type p = Win64)"

text \<open>The static \<^verbatim>\<open>toString(Type pt)\<close>: a \<^verbatim>\<open>switch\<close> whose \<^verbatim>\<open>default\<close> label throws.\<close>

definition toString :: "Type \<Rightarrow> error + string" where
  "toString pt =
     (if pt = Unspecified then Inr ''unspecified''
      else if pt = Native then Inr ''native''
      else if pt = Win32A then Inr ''win32A''
      else if pt = Win32W then Inr ''win32W''
      else if pt = Win64 then Inr ''win64''
      else if pt = Unix32 then Inr ''unix32''
      else if pt = Unix64 then Inr ''unix64''
      else if pt = File then Inr ''platformFile''
      else Inl (RuntimeError ''unknown platform''))"

text \<open>The member \<^verbatim>\<open>toString()\<close>, which passes the descriptor's own tag.\<close>

definition toString_this :: "Platform \<Rightarrow> error + string" where
  "toString_this p = toString (type p)"

section \<open>Bounds of char\<close>

text \<open>
  In \<^verbatim>\<open>max_value(char_bit + 1)\<close> the sum is computed in \<^verbatim>\<open>int\<close> and then converted to
  the parameter type \<^verbatim>\<open>std::uint8_t\<close>, that is, reduced modulo 256.
\<close>

definition unsignedCharMax :: "Platform \<Rightarrow> error + longlong" where
  "unsignedCharMax p = max_value (word_of_nat (unat (char_bit p) + 1))"

definition signedCharMax :: "Platform \<Rightarrow> error + longlong" where
  "signedCharMax p = max_value (char_bit p)"

definition signedCharMin :: "Platform \<Rightarrow> error + longlong" where
  "signedCharMin p = min_value (char_bit p)"

section \<open>A concrete descriptor\<close>

text \<open>
  A descriptor with the widths and sizes of a 64-bit Unix target (8-bit char, 32-bit
  int, 64-bit long), used as the concrete input where a statement is evaluated.
\<close>

definition unix64_descriptor :: Platform where
  "unix64_descriptor =
     \<lparr>char_bit = 8, short_bit = 16, int_bit = 32, long_bit = 64, long_long_bit = 64,
      sizeof_bool = 1, sizeof_short = 2, sizeof_int = 4, sizeof_long = 8,
      sizeof_long_long = 8, sizeof_float = 4, sizeof_double = 8, sizeof_long_double = 16,
      sizeof_wchar_t = 4, sizeof_size_t = 8, sizeof_pointer = 8,
      defaultSign = CHR 0x00, type = Unix64\<rparr>"

section \<open>Selecting a platform by name\<close>

text \<open>
  \<^verbatim>\<open>platform.h\<close> declares \<^verbatim>\<open>set(Type)\<close>, the string overload of \<^verbatim>\<open>set\<close> and
  \<^verbatim>\<open>loadFromFile\<close>; their bodies are not part of the sources at hand. What follows is
  their description in sections 4.3, 4.4 and 6 of the specification. What lies outside
  the descriptor is gathered in \<open>lookup_env\<close>: the field values of the preset table, the
  directory of the running executable, and for every candidate path the outcome of
  opening and parsing the file there (\<open>None\<close> when it cannot be opened or parsed).
\<close>

record lookup_env =
  preset_values :: "Type \<Rightarrow> Platform"
  exe_dir :: string
  load_file :: "string \<Rightarrow> Platform option"

text \<open>
  Modelled from the spec: the preset identifiers in string form (section 6). The body of
  the string overload of \<^verbatim>\<open>set\<close>, which compares the labels, is missing. The label
  \<^verbatim>\<open>platformFile\<close> is not a settable preset.
\<close>

definition preset_of_label :: "string \<Rightarrow> Type option" where
  "preset_of_label s =
     (if s = ''unspecified'' then Some Unspecified
      else if s = ''native'' then Some Native
      else if s = ''win32A'' then Some Win32A
      else if s = ''win32W'' then Some Win32W
      else if s = ''win64'' then Some Win64
      else if s = ''unix32'' then Some Unix32
      else if s = ''unix64'' then Some Unix64
      else None)"

text \<open>
  Modelled from the spec: \<^verbatim>\<open>set(Type t)\<close>, whose body is missing (section 4.3). Applying
  a preset overwrites the fields with the values of the table and succeeds unless the
  identifier is not one of the seven presets.
\<close>

definition set_Type :: "(Type \<Rightarrow> Platform) \<Rightarrow> Type \<Rightarrow> Platform \<Rightarrow> bool \<times> Platform" where
  "set_Type table t p =
     (if t \<in> {Native, Win32A, Win32W, Win64, Unix32, Unix64, Unspecified}
      then (True, (table t)\<lparr>type := t\<rparr>)
      else (False, p))"

text \<open>
  Modelled from the spec: the path of a file name relative to a directory. The lookup
  of \<^verbatim>\<open>loadFromFile\<close> is missing; the specification does not say how the two parts are
  joined, a slash is used.
\<close>

definition resolve :: "string \<Rightarrow> string \<Rightarrow> string" where
  "resolve dir name = dir @ ''/'' @ name"

text \<open>
  Modelled from the spec: the candidates of step 2 of section 4.4, in order: the literal
  path, the path relative to each search directory, the path relative to the directory
  of the executable. The lookup code is missing.
\<close>

definition candidates :: "string \<Rightarrow> string list \<Rightarrow> string \<Rightarrow> string list" where
  "candidates name paths exedir =
     name # map (\<lambda>dir. resolve dir name) paths @ [resolve exedir name]"

text \<open>
  Modelled from the spec: "the first successful open-and-parse wins" (section 4.4,
  step 2). The loop over the candidates is missing.
\<close>

fun first_loaded :: "(string \<Rightarrow> Platform option) \<Rightarrow> string list \<Rightarrow> Platform option" where
  "first_loaded load [] = None"
| "first_loaded load (c # cs) =
     (case load c of Some d \<Rightarrow> Some d | None \<Rightarrow> first_loaded load cs)"

text \<open>
  Modelled from the spec: the string overload of \<^verbatim>\<open>set\<close>, whose body is missing
  (section 4.4). The result is the returned flag, the content of the output parameter
  \<^verbatim>\<open>errstr\<close> after the call, and the descriptor after the call. A preset label delegates
  to the preset table; otherwise the candidates are tried in order and the first that
  loads overwrites the descriptor, which then carries the tag \<open>File\<close>; when none loads
  the call fails with a message and the descriptor is the one before the call. The
  specification fixes of the message only that it is descriptive and not empty; the
  text used here names the platform string. The debug trace is a side channel that
  does not affect the result, so the flag \<open>debug\<close> is taken and not used.
\<close>

definition set_string ::
  "lookup_env \<Rightarrow> string \<Rightarrow> string \<Rightarrow> string list \<Rightarrow> bool \<Rightarrow> Platform
     \<Rightarrow> bool \<times> string \<times> Platform" where
  "set_string env platformstr errstr paths debug p =
     (case preset_of_label platformstr of
        Some t \<Rightarrow>
          (fst (set_Type (preset_values env) t p), errstr,
           snd (set_Type (preset_values env) t p))
      | None \<Rightarrow>
          (case first_loaded (load_file env) (candidates platformstr paths (exe_dir env)) of
             Some d \<Rightarrow> (True, errstr, d\<lparr>type := File\<rparr>)
           | None \<Rightarrow> (False, ''unrecognized platform: '' @ platformstr, p)))"

text \<open>An environment in which no file can be loaded.\<close>

definition empty_env :: lookup_env where
  "empty_env =
     \<lparr>preset_values = (\<lambda>t. unix64_descriptor), exe_dir = ''/usr/bin'',
      load_file = (\<lambda>path. None)\<rparr>"

section \<open>Limits defines\<close>

text \<open>
  \<^verbatim>\<open>platform.h\<close> declares three overloads of \<^verbatim>\<open>getLimitsDefines\<close>: a private one
  taking the flag \<^verbatim>\<open>c99\<close> and two public ones taking a C standard and a C++ standard.
  Their bodies and \<^verbatim>\<open>standards.h\<close> are not part of the sources at hand. What follows
  is section 4.5 of the specification.
\<close>

text \<open>
  Modelled from the spec: \<^verbatim>\<open>Standards::cstd_t\<close> and \<^verbatim>\<open>Standards::cppstd_t\<close>, declared
  in the missing \<^verbatim>\<open>standards.h\<close>. The specification calls the identifier "a C standard
  year or a C++ standard year": a standard is given by its year (1989 for C89, 1999 for
  C99, 2003 for C++03, 2011 for C++11).
\<close>

type_synonym cstd_t = nat
type_synonym cppstd_t = nat

text \<open>
  Modelled from the spec: one define, a macro name with its value, from a bound
  computed by the range functions. The code that writes the defines is missing.
\<close>

definition define_signed :: "string \<Rightarrow> error + longlong \<Rightarrow> error + string \<times> int" where
  "define_signed name r = (case r of Inl e \<Rightarrow> Inl e | Inr w \<Rightarrow> Inr (name, sint w))"

text \<open>
  Modelled from the spec: as \<open>define_signed\<close>, for a bound that is an
  \<^verbatim>\<open>unsigned long long\<close>. The code that writes the defines is missing.
\<close>

definition define_unsigned :: "string \<Rightarrow> error + ulonglong \<Rightarrow> error + string \<times> int" where
  "define_unsigned name r = (case r of Inl e \<Rightarrow> Inl e | Inr w \<Rightarrow> Inr (name, uint w))"

text \<open>
  Modelled from the spec: the defines are produced one after the other; a failing
  assertion of a range function ends the whole call. The code is missing.
\<close>

fun collect :: "(error + 'a) list \<Rightarrow> error + 'a list" where
  "collect [] = Inr []"
| "collect (x # xs) =
     (case x of
        Inl e \<Rightarrow> Inl e
      | Inr v \<Rightarrow> (case collect xs of Inl e \<Rightarrow> Inl e | Inr vs \<Rightarrow> Inr (v # vs)))"

text \<open>
  Modelled from the spec: the private \<^verbatim>\<open>getLimitsDefines(bool c99)\<close>, whose body is
  missing (section 4.5). The output is the list of defines in order, each a macro name
  with its value; the specification does not fix the syntax of the text, which is not
  modelled. The macros are those the specification names: \<^verbatim>\<open>CHAR_BIT\<close>,
  \<^verbatim>\<open>INT_MIN\<close>, \<^verbatim>\<open>INT_MAX\<close>, \<^verbatim>\<open>LONG_MIN\<close>, \<^verbatim>\<open>LONG_MAX\<close> and, with \<^verbatim>\<open>c99\<close>,
  \<^verbatim>\<open>LLONG_MIN\<close>, \<^verbatim>\<open>LLONG_MAX\<close>, \<^verbatim>\<open>ULLONG_MAX\<close>; their values come from the
  range functions at the widths of the descriptor.
\<close>

definition getLimitsDefines_c99 :: "Platform \<Rightarrow> bool \<Rightarrow> error + (string \<times> int) list" where
  "getLimitsDefines_c99 p c99 =
     collect
       ([Inr (''CHAR_BIT'', uint (char_bit p)),
         define_signed ''INT_MIN'' (min_value (int_bit p)),
         define_signed ''INT_MAX'' (max_value (int_bit p)),
         define_signed ''LONG_MIN'' (min_value (long_bit p)),
         define_signed ''LONG_MAX'' (max_value (long_bit p))] @
        (if c99
         then [define_signed ''LLONG_MIN'' (min_value (long_long_bit p)),
               define_signed ''LLONG_MAX'' (max_value (long_long_bit p)),
               define_unsigned ''ULLONG_MAX'' (max_value_unsigned (long_long_bit p))]
         else []))"

text \<open>
  Modelled from the spec: \<^verbatim>\<open>getLimitsDefines(Standards::cstd_t)\<close>, whose body is missing.
  The long-long family is emitted from C99 onward.
\<close>

definition getLimitsDefines_cstd :: "Platform \<Rightarrow> cstd_t \<Rightarrow> error + (string \<times> int) list" where
  "getLimitsDefines_cstd p cstd = getLimitsDefines_c99 p (cstd \<ge> 1999)"

text \<open>
  Modelled from the spec: \<^verbatim>\<open>getLimitsDefines(Standards::cppstd_t)\<close>, whose body is
  missing. The long-long family is emitted from C++11 onward.
\<close>

definition getLimitsDefines_cppstd :: "Platform \<Rightarrow> cppstd_t \<Rightarrow> error + (string \<times> int) list" where
  "getLimitsDefines_cppstd p cppstd = getLimitsDefines_c99 p (cppstd \<ge> 2011)"

text \<open>
  The macros of the long-long family, and the invariant of a populated descriptor: every
  width and every size is positive.
\<close>

definition long_long_macros :: "string set" where
  "long_long_macros = {''LLONG_MIN'', ''LLONG_MAX'', ''ULLONG_MAX''}"

definition populated :: "Platform \<Rightarrow> bool" where
  "populated p =
     (0 < char_bit p \<and> 0 < short_bit p \<and> 0 < int_bit p \<and> 0 < long_bit p \<and>
      0 < long_long_bit p \<and>
      0 < sizeof_bool p \<and> 0 < sizeof_short p \<and> 0 < sizeof_int p \<and> 0 < sizeof_long p \<and>
      0 < sizeof_long_long p \<and> 0 < sizeof_float p \<and> 0 < sizeof_double p \<and>
      0 < sizeof_long_double p \<and> 0 < sizeof_wchar_t p \<and> 0 < sizeof_size_t p \<and>
      0 < sizeof_pointer p)"

section \<open>Facts about 64-bit words\<close>

lemma pow_lt_64: "n < 64 \<Longrightarrow> (2::int) ^ n < 2 ^ 64"
  by (rule power_strict_increasing) simp_all

lemma pow_lt_63: "n < 63 \<Longrightarrow> (2::int) ^ n < 2 ^ 63"
  by (rule power_strict_increasing) simp_all

lemma uint_p2:
  assumes "n < 64" shows "uint (2 ^ n :: 64 word) = 2 ^ n"
proof -
  have "uint (2 ^ n :: 64 word) = uint (word_of_int (2 ^ n) :: 64 word)"
    by (simp only: word_of_int_2p)
  also have "\<dots> = take_bit 64 ((2::int) ^ n)"
    by (simp only: uint_word_of_int_eq) simp
  also have "\<dots> = 2 ^ n"
    using pow_lt_64 [OF assms] by (intro take_bit_int_eq_self) simp_all
  finally show ?thesis .
qed

lemma signed_63_self:
  "- (2 ^ 63) \<le> k \<Longrightarrow> k < 2 ^ 63 \<Longrightarrow> signed_take_bit 63 (k::int) = k"
  by (rule signed_take_bit_int_eq_self)

lemma sint_p2:
  assumes "n < 63" shows "sint (2 ^ n :: 64 word) = 2 ^ n"
proof -
  have pos: "0 < (2::int) ^ n" by simp
  have "sint (2 ^ n :: 64 word) = signed_take_bit 63 ((2::int) ^ n)"
    using assms by (simp add: sint_uint uint_p2)
  also have "\<dots> = 2 ^ n"
    using pow_lt_63 [OF assms] pos by (intro signed_63_self) linarith+
  finally show ?thesis .
qed

lemma sint_neg_p2:
  assumes "n < 63" shows "sint (- (2 ^ n :: 64 word)) = - (2 ^ n)"
proof -
  have pos: "0 < (2::int) ^ n" by simp
  have "sint (- (2 ^ n :: 64 word)) = signed_take_bit 63 (- ((2::int) ^ n))"
    using assms by (simp add: sint_word_minus sint_p2)
  also have "\<dots> = - (2 ^ n)"
    using pow_lt_63 [OF assms] pos by (intro signed_63_self) linarith+
  finally show ?thesis .
qed

lemma sint_p2_m1:
  assumes "n < 63" shows "sint ((2 ^ n :: 64 word) - 1) = 2 ^ n - 1"
proof -
  have pos: "0 < (2::int) ^ n" by simp
  have "sint ((2 ^ n :: 64 word) - 1) = signed_take_bit 63 ((2::int) ^ n - 1)"
    using assms by (simp add: sint_word_diff sint_p2)
  also have "\<dots> = 2 ^ n - 1"
    using pow_lt_63 [OF assms] pos by (intro signed_63_self) linarith+
  finally show ?thesis .
qed

lemma uint_p2_m1:
  assumes "n < 64" shows "uint ((2 ^ n :: 64 word) - 1) = 2 ^ n - 1"
proof -
  have pos: "0 < (2::int) ^ n" by simp
  have "uint (1::64 word) \<le> uint (2 ^ n :: 64 word)"
    using assms pos by (simp add: uint_p2)
  then have "uint ((2 ^ n :: 64 word) - 1) = uint (2 ^ n :: 64 word) - uint (1::64 word)"
    by (simp only: uint_sub_lem)
  then show ?thesis using assms by (simp add: uint_p2)
qed

lemma sint_LLONG_MIN: "sint LLONG_MIN = - (2 ^ 63)"
  by (simp add: LLONG_MIN_def)

lemma sint_LLONG_MAX: "sint (drop_bit 1 (NOT 0 :: 64 word)) = 2 ^ 63 - 1"
  by (simp add: mask_eq_exp_minus_1)

lemma uint_ULLONG_MAX: "uint (NOT 0 :: 64 word) = 2 ^ 64 - 1"
  using uint_word_ariths(4) [of "1 :: 64 word"] by simp

section \<open>Values of the range functions\<close>

lemma width_small:
  assumes "1 \<le> (b::uint8)" "b \<le> 63"
  shows "0 < b" "\<not> 64 \<le> b" "unat b - 1 < 63" "unat b < 64" "1 \<le> unat b"
  using assms by (simp_all add: word_less_nat_alt word_le_nat_alt)

lemma width_large:
  assumes "64 \<le> (b::uint8)"
  shows "0 < b"
  using assms by (simp add: word_less_nat_alt word_le_nat_alt)

lemma min_value_small:
  assumes "1 \<le> b" "b \<le> 63"
  shows "\<exists>lo. min_value b = Inr lo \<and> sint lo = - (2 ^ (unat b - 1))"
  using width_small [OF assms] by (simp add: min_value_def sint_neg_p2)

lemma max_value_small:
  assumes "1 \<le> b" "b \<le> 63"
  shows "\<exists>hi. max_value b = Inr hi \<and> sint hi = 2 ^ (unat b - 1) - 1"
  using width_small [OF assms] by (simp add: max_value_def sint_p2_m1)

lemma max_value_unsigned_small:
  assumes "1 \<le> b" "b \<le> 63"
  shows "\<exists>um. max_value_unsigned b = Inr um \<and> uint um = 2 ^ unat b - 1"
  using width_small [OF assms] by (simp add: max_value_unsigned_def uint_p2_m1)

lemma min_value_large: "64 \<le> b \<Longrightarrow> min_value b = Inr LLONG_MIN"
  using width_large [of b] by (simp add: min_value_def)

lemma max_value_large: "64 \<le> b \<Longrightarrow> max_value b = Inr (drop_bit 1 (NOT 0))"
  using width_large [of b] by (simp add: max_value_def)

lemma max_value_unsigned_large: "64 \<le> b \<Longrightarrow> max_value_unsigned b = Inr (NOT 0)"
  using width_large [of b] by (simp add: max_value_unsigned_def)

text \<open>
  Claim C1. For a width \<open>b\<close> from 1 to 63, \<^verbatim>\<open>min_value\<close> returns \<open>- 2 ^ (b - 1)\<close>,
  \<^verbatim>\<open>max_value\<close> returns \<open>2 ^ (b - 1) - 1\<close> and \<^verbatim>\<open>max_value_unsigned\<close> returns
  \<open>2 ^ b - 1\<close>; for a width of 64 or more they return the least 64-bit signed value
  \<open>- 2 ^ 63\<close>, the greatest one \<open>2 ^ 63 - 1\<close>, and the all-ones pattern \<open>2 ^ 64 - 1\<close>.
\<close>

theorem range_values:
  "(1 \<le> b \<and> b \<le> 63 \<longrightarrow>
      (\<exists>lo hi um.
         min_value b = Inr lo \<and> sint lo = - (2 ^ (unat b - 1)) \<and>
         max_value b = Inr hi \<and> sint hi = 2 ^ (unat b - 1) - 1 \<and>
         max_value_unsigned b = Inr um \<and> uint um = 2 ^ unat b - 1)) \<and>
   (64 \<le> b \<longrightarrow>
      (\<exists>lo hi um.
         min_value b = Inr lo \<and> sint lo = - (2 ^ 63) \<and>
         max_value b = Inr hi \<and> sint hi = 2 ^ 63 - 1 \<and>
         max_value_unsigned b = Inr um \<and> uint um = 2 ^ 64 - 1 \<and> um = NOT 0))"
proof (intro conjI impI)
  assume "1 \<le> b \<and> b \<le> 63"
  then have b: "1 \<le> b" "b \<le> 63" by simp_all
  from min_value_small [OF b] max_value_small [OF b] max_value_unsigned_small [OF b]
  show "\<exists>lo hi um.
         min_value b = Inr lo \<and> sint lo = - (2 ^ (unat b - 1)) \<and>
         max_value b = Inr hi \<and> sint hi = 2 ^ (unat b - 1) - 1 \<and>
         max_value_unsigned b = Inr um \<and> uint um = 2 ^ unat b - 1"
    by blast
next
  assume b: "64 \<le> b"
  show "\<exists>lo hi um.
         min_value b = Inr lo \<and> sint lo = - (2 ^ 63) \<and>
         max_value b = Inr hi \<and> sint hi = 2 ^ 63 - 1 \<and>
         max_value_unsigned b = Inr um \<and> uint um = 2 ^ 64 - 1 \<and> um = NOT 0"
    using min_value_large [OF b] max_value_large [OF b] max_value_unsigned_large [OF b]
      sint_LLONG_MIN sint_LLONG_MAX uint_ULLONG_MAX
    by simp
qed

theorem range_values_witness:
  "(\<exists>lo hi um.
      min_value 8 = Inr lo \<and> sint lo = - 128 \<and>
      max_value 8 = Inr hi \<and> sint hi = 127 \<and>
      max_value_unsigned 8 = Inr um \<and> uint um = 255) \<and>
   (\<exists>lo hi um.
      min_value 64 = Inr lo \<and> sint lo = - (2 ^ 63) \<and>
      max_value 64 = Inr hi \<and> sint hi = 2 ^ 63 - 1 \<and>
      max_value_unsigned 64 = Inr um \<and> uint um = 2 ^ 64 - 1 \<and> um = NOT 0)"
  using range_values [of 8] range_values [of 64] by simp

section \<open>Range membership of signed and unsigned values\<close>

lemma descriptor_fields:
  "int_bit unix64_descriptor = 32" "long_bit unix64_descriptor = 64"
  "long_long_bit unix64_descriptor = 64" "char_bit unix64_descriptor = 8"
  "type unix64_descriptor = Unix64"
  by (simp_all add: unix64_descriptor_def)

lemma range_total:
  assumes "0 < b"
  shows "\<exists>lo hi. min_value b = Inr lo \<and> max_value b = Inr hi"
  using assms by (simp add: min_value_def max_value_def)

lemma range_error:
  assumes "\<not> 0 < b"
  shows "min_value b = Inl AssertionFailed" "max_value b = Inl AssertionFailed"
  using assms by (simp_all add: min_value_def max_value_def)

lemma isIntValue_bigint_iff:
  "(isIntValue_bigint p v = Inr True) =
     (\<exists>lo hi. min_value (int_bit p) = Inr lo \<and> max_value (int_bit p) = Inr hi \<and>
        sint lo \<le> sint v \<and> sint v \<le> sint hi)"
proof (cases "0 < int_bit p")
  case True
  from range_total [OF True] obtain lo hi
    where "min_value (int_bit p) = Inr lo" "max_value (int_bit p) = Inr hi" by blast
  then show ?thesis by (simp add: isIntValue_bigint_def word_sle_eq)
next
  case False
  from range_error [OF False] show ?thesis by (simp add: isIntValue_bigint_def)
qed

lemma isIntValue_bigint_returns:
  assumes "0 < int_bit p"
  shows "\<exists>r. isIntValue_bigint p v = Inr r"
proof -
  from range_total [OF assms] obtain lo hi
    where "min_value (int_bit p) = Inr lo" "max_value (int_bit p) = Inr hi" by blast
  then show ?thesis by (auto simp add: isIntValue_bigint_def)
qed

lemma min_value_32: "min_value 32 = Inr (- 2147483648)"
  by (simp add: min_value_def)

lemma max_value_32: "max_value 32 = Inr 2147483647"
  by (simp add: max_value_def)

lemma isIntValue_32:
  assumes "int_bit p = 32"
  shows "isIntValue_bigint p 2147483647 = Inr True"
    "isIntValue_bigint p 2147483648 = Inr False"
    "isIntValue_bigint p (- 2147483648) = Inr True"
    "isIntValue_bigint p (- 2147483649) = Inr False"
  using assms
  by (simp_all add: isIntValue_bigint_def min_value_32 max_value_32 word_sle_eq)

text \<open>
  Claim C2. For every signed value and every descriptor, \<^verbatim>\<open>isIntValue\<close> on a signed
  input returns true exactly when the value lies between \<^verbatim>\<open>min_value(int_bit)\<close> and
  \<^verbatim>\<open>max_value(int_bit)\<close>, both read as signed numbers; with a positive width the call
  returns a truth value. With \<open>int_bit = 32\<close> it is true at 2147483647, false at
  2147483648, true at -2147483648 and false at -2147483649.
\<close>

theorem isIntValue_signed_range:
  "((isIntValue_bigint p v = Inr True) =
      (\<exists>lo hi. min_value (int_bit p) = Inr lo \<and> max_value (int_bit p) = Inr hi \<and>
         sint lo \<le> sint v \<and> sint v \<le> sint hi)) \<and>
   (0 < int_bit p \<longrightarrow> (\<exists>r. isIntValue_bigint p v = Inr r)) \<and>
   (int_bit p = 32 \<longrightarrow>
      isIntValue_bigint p 2147483647 = Inr True \<and>
      isIntValue_bigint p 2147483648 = Inr False \<and>
      isIntValue_bigint p (- 2147483648) = Inr True \<and>
      isIntValue_bigint p (- 2147483649) = Inr False)"
  using isIntValue_bigint_iff [of p v] isIntValue_bigint_returns [of p v] isIntValue_32 [of p]
  by blast

theorem isIntValue_signed_range_witness:
  "0 < int_bit unix64_descriptor \<and> int_bit unix64_descriptor = 32 \<and>
   isIntValue_bigint unix64_descriptor 5 = Inr True \<and>
   isIntValue_bigint unix64_descriptor 2147483647 = Inr True \<and>
   isIntValue_bigint unix64_descriptor 2147483648 = Inr False \<and>
   isIntValue_bigint unix64_descriptor (- 2147483648) = Inr True \<and>
   isIntValue_bigint unix64_descriptor (- 2147483649) = Inr False"
  using isIntValue_signed_range [of unix64_descriptor 5]
  by (simp add: descriptor_fields min_value_32 max_value_32)

lemma max_value_64: "max_value 64 = Inr 9223372036854775807"
  by (simp add: max_value_def mask_eq_exp_minus_1)

lemma max_total: "0 < b \<Longrightarrow> \<exists>hi. max_value b = Inr hi"
  by (simp add: max_value_def)

lemma unsigned_member_iff:
  "((case max_value b of Inl e \<Rightarrow> Inl e | Inr m \<Rightarrow> Inr (v \<le> m)) = Inr True) =
     (\<exists>hi. max_value b = Inr hi \<and> uint v \<le> uint hi)"
  by (cases "max_value b") (simp_all add: word_le_def)

lemma unsigned_member_returns:
  "0 < b \<Longrightarrow> \<exists>r. (case max_value b of Inl e \<Rightarrow> Inl e | Inr m \<Rightarrow> Inr (v \<le> m)) = Inr r"
  using max_total [of b] by auto

text \<open>
  Claim C3. For every unsigned value and every descriptor, \<^verbatim>\<open>isIntValue\<close> on an
  unsigned input returns true exactly when the value is at most \<^verbatim>\<open>max_value(int_bit)\<close>
  read as unsigned; \<^verbatim>\<open>min_value\<close> takes no part in the result. \<^verbatim>\<open>isLongValue\<close> and
  \<^verbatim>\<open>isLongLongValue\<close> on unsigned inputs do the same with \<open>long_bit\<close> and
  \<open>long_long_bit\<close>. With a positive width each call returns a truth value.
\<close>

theorem isIntValue_unsigned_range:
  "((isIntValue_biguint p v = Inr True) =
      (\<exists>hi. max_value (int_bit p) = Inr hi \<and> uint v \<le> uint hi)) \<and>
   ((isLongValue_biguint p v = Inr True) =
      (\<exists>hi. max_value (long_bit p) = Inr hi \<and> uint v \<le> uint hi)) \<and>
   ((isLongLongValue p v = Inr True) =
      (\<exists>hi. max_value (long_long_bit p) = Inr hi \<and> uint v \<le> uint hi)) \<and>
   (0 < int_bit p \<longrightarrow> (\<exists>r. isIntValue_biguint p v = Inr r)) \<and>
   (0 < long_bit p \<longrightarrow> (\<exists>r. isLongValue_biguint p v = Inr r)) \<and>
   (0 < long_long_bit p \<longrightarrow> (\<exists>r. isLongLongValue p v = Inr r))"
  unfolding isIntValue_biguint_def isLongValue_biguint_def isLongLongValue_def
  using unsigned_member_iff [where b = "int_bit p" and v = v]
    unsigned_member_iff [where b = "long_bit p" and v = v]
    unsigned_member_iff [where b = "long_long_bit p" and v = v]
    unsigned_member_returns [where b = "int_bit p" and v = v]
    unsigned_member_returns [where b = "long_bit p" and v = v]
    unsigned_member_returns [where b = "long_long_bit p" and v = v]
  by blast

theorem isIntValue_unsigned_range_witness:
  "0 < int_bit unix64_descriptor \<and> 0 < long_bit unix64_descriptor \<and>
   0 < long_long_bit unix64_descriptor \<and>
   isIntValue_biguint unix64_descriptor 2147483647 = Inr True \<and>
   isLongValue_biguint unix64_descriptor 2147483647 = Inr True \<and>
   isLongLongValue unix64_descriptor 2147483647 = Inr True"
  using isIntValue_unsigned_range [of unix64_descriptor 2147483647]
  by (simp add: descriptor_fields max_value_32 max_value_64)

section \<open>The greatest unsigned char\<close>

lemma narrow_succ: "(word_of_nat (unat (c::uint8) + 1) :: uint8) = c + 1"
  by simp

lemma max_value_9: "max_value 9 = Inr 255"
  by (simp add: max_value_def)

lemma max_value_65: "max_value 65 = Inr (drop_bit 1 (NOT 0))"
  by (simp add: max_value_def)

lemma max_value_unsigned_64: "max_value_unsigned 64 = Inr (NOT 0)"
  by (simp add: max_value_unsigned_def)

lemma sat_differs: "max_value 65 \<noteq> max_value_unsigned 64"
  by (simp add: max_value_65 max_value_unsigned_64 mask_eq_exp_minus_1)

lemma unsignedCharMax_eq: "unsignedCharMax p = max_value (char_bit p + 1)"
  unfolding unsignedCharMax_def by (simp only: narrow_succ)

text \<open>
  Claim C4. For every descriptor, \<^verbatim>\<open>unsignedCharMax()\<close> is \<^verbatim>\<open>max_value\<close> at the width
  \<open>char_bit + 1\<close> (as an 8-bit width), and not \<^verbatim>\<open>max_value_unsigned(char_bit)\<close>, from
  which it differs at \<open>char_bit = 64\<close>; with \<open>char_bit = 8\<close> it is
  \<^verbatim>\<open>max_value(9)\<close>, which is 255.
\<close>

theorem unsignedCharMax_formula:
  "unsignedCharMax p = max_value (char_bit p + 1) \<and>
   (char_bit p = 8 \<longrightarrow> unsignedCharMax p = max_value 9 \<and> max_value 9 = Inr 255) \<and>
   (char_bit p = 64 \<longrightarrow> unsignedCharMax p \<noteq> max_value_unsigned (char_bit p))"
proof (intro conjI impI)
  show "unsignedCharMax p = max_value (char_bit p + 1)" by (rule unsignedCharMax_eq)
  show "max_value 9 = Inr 255" by (rule max_value_9)
  show "unsignedCharMax p = max_value 9" if "char_bit p = 8"
    using that by (simp add: unsignedCharMax_eq)
  show "unsignedCharMax p \<noteq> max_value_unsigned (char_bit p)" if "char_bit p = 64"
    using that sat_differs by (simp add: unsignedCharMax_eq)
qed

theorem unsignedCharMax_formula_witness:
  "char_bit unix64_descriptor = 8 \<and> unsignedCharMax unix64_descriptor = Inr 255 \<and>
   char_bit (unix64_descriptor\<lparr>char_bit := 64\<rparr>) = 64 \<and>
   unsignedCharMax (unix64_descriptor\<lparr>char_bit := 64\<rparr>) \<noteq> max_value_unsigned 64"
proof -
  have c8: "char_bit unix64_descriptor = 8"
    by (rule descriptor_fields)
  have c64: "char_bit (unix64_descriptor\<lparr>char_bit := 64\<rparr>) = 64"
    by simp
  from unsignedCharMax_formula [of unix64_descriptor] c8
  have "unsignedCharMax unix64_descriptor = Inr 255" by simp
  moreover from unsignedCharMax_formula [of "unix64_descriptor\<lparr>char_bit := 64\<rparr>"] c64
  have "unsignedCharMax (unix64_descriptor\<lparr>char_bit := 64\<rparr>) \<noteq> max_value_unsigned 64"
    by metis
  ultimately show ?thesis using c8 c64 by blast
qed

section \<open>The identity tag\<close>

lemma toString_labels:
  "toString Unspecified = Inr ''unspecified''"
  "toString Native = Inr ''native''"
  "toString Win32A = Inr ''win32A''"
  "toString Win32W = Inr ''win32W''"
  "toString Win64 = Inr ''win64''"
  "toString Unix32 = Inr ''unix32''"
  "toString Unix64 = Inr ''unix64''"
  "toString File = Inr ''platformFile''"
  by (simp_all add: toString_def Type_defs)

lemma toString_unknown:
  assumes "pt \<notin> {Unspecified, Native, Win32A, Win32W, Win64, Unix32, Unix64, File}"
  shows "toString pt = Inl (RuntimeError ''unknown platform'')"
  using assms by (simp add: toString_def)

text \<open>
  Claim C5. \<^verbatim>\<open>toString\<close> maps each of the eight tags \<open>Unspecified\<close>, \<open>Native\<close>,
  \<open>Win32A\<close>, \<open>Win32W\<close>, \<open>Win64\<close>, \<open>Unix32\<close>, \<open>Unix64\<close>, \<open>File\<close> to its label, and for
  every tag value outside this set it throws \<^verbatim>\<open>std::runtime_error\<close> and returns no
  string. The member \<^verbatim>\<open>toString()\<close> is the same function at the descriptor's tag.
\<close>

theorem toString_total_mapping:
  "toString Unspecified = Inr ''unspecified'' \<and>
   toString Native = Inr ''native'' \<and>
   toString Win32A = Inr ''win32A'' \<and>
   toString Win32W = Inr ''win32W'' \<and>
   toString Win64 = Inr ''win64'' \<and>
   toString Unix32 = Inr ''unix32'' \<and>
   toString Unix64 = Inr ''unix64'' \<and>
   toString File = Inr ''platformFile'' \<and>
   (pt \<notin> {Unspecified, Native, Win32A, Win32W, Win64, Unix32, Unix64, File} \<longrightarrow>
      toString pt = Inl (RuntimeError ''unknown platform'')) \<and>
   toString_this p = toString (type p)"
  using toString_labels toString_unknown [of pt] by (simp add: toString_this_def)

theorem toString_total_mapping_witness:
  "(8::Type) \<notin> {Unspecified, Native, Win32A, Win32W, Win64, Unix32, Unix64, File} \<and>
   toString 8 = Inl (RuntimeError ''unknown platform'') \<and>
   toString_this unix64_descriptor = Inr ''unix64''"
  using toString_total_mapping [of 8 unix64_descriptor]
  by (simp add: Type_defs descriptor_fields)

text \<open>
  Claim C9. For every descriptor, \<^verbatim>\<open>isWindows()\<close> is true exactly when the tag is one of
  \<open>Win32A\<close>, \<open>Win32W\<close>, \<open>Win64\<close>; for the tags \<open>Unspecified\<close>, \<open>Native\<close>, \<open>Unix32\<close>,
  \<open>Unix64\<close> and \<open>File\<close> it is false.
\<close>

theorem isWindows_iff:
  "(isWindows p = (type p \<in> {Win32A, Win32W, Win64})) \<and>
   (type p \<in> {Unspecified, Native, Unix32, Unix64, File} \<longrightarrow> \<not> isWindows p)"
  by (auto simp add: isWindows_def Type_defs)

theorem isWindows_iff_witness:
  "type unix64_descriptor \<in> {Unspecified, Native, Unix32, Unix64, File} \<and>
   \<not> isWindows unix64_descriptor \<and>
   isWindows (unix64_descriptor\<lparr>type := Win64\<rparr>)"
  using isWindows_iff [of unix64_descriptor]
    isWindows_iff [of "unix64_descriptor\<lparr>type := Win64\<rparr>"]
  by (simp add: descriptor_fields Type_defs)

section \<open>Relations between the bounds\<close>

lemma pow_double: "1 \<le> n \<Longrightarrow> (2::int) * 2 ^ (n - 1) = 2 ^ n"
  by (cases n) simp_all

lemma range_signs_small:
  assumes "1 \<le> b" "b \<le> 63"
  shows "\<exists>lo hi. min_value b = Inr lo \<and> max_value b = Inr hi \<and> sint lo \<le> 0 \<and> 0 \<le> sint hi"
proof -
  from min_value_small [OF assms] obtain lo
    where lo: "min_value b = Inr lo" "sint lo = - (2 ^ (unat b - 1))" by blast
  from max_value_small [OF assms] obtain hi
    where hi: "max_value b = Inr hi" "sint hi = 2 ^ (unat b - 1) - 1" by blast
  have "0 < (2::int) ^ (unat b - 1)" by simp
  with lo hi show ?thesis by simp
qed

lemma range_signs_64:
  "\<exists>lo hi. min_value 64 = Inr lo \<and> max_value 64 = Inr hi \<and> sint lo \<le> 0 \<and> 0 \<le> sint hi"
  using min_value_large [of 64] max_value_large [of 64] sint_LLONG_MIN sint_LLONG_MAX
  by simp

lemma width_le_64_cases: "(b::uint8) \<le> 64 \<Longrightarrow> b \<le> 63 \<or> b = 64"
  by (simp add: word_le_nat_alt word_eq_iff_unsigned [where 'a = nat]) arith

lemma unsigned_is_twice_signed:
  assumes "1 \<le> b" "b \<le> 63"
  shows "\<exists>hi um. max_value b = Inr hi \<and> max_value_unsigned b = Inr um \<and>
           uint um = 2 * sint hi + 1"
proof -
  from max_value_small [OF assms] obtain hi
    where hi: "max_value b = Inr hi" "sint hi = 2 ^ (unat b - 1) - 1" by blast
  from max_value_unsigned_small [OF assms] obtain um
    where um: "max_value_unsigned b = Inr um" "uint um = 2 ^ unat b - 1" by blast
  from width_small(5) [OF assms] have "(2::int) * 2 ^ (unat b - 1) = 2 ^ unat b"
    by (rule pow_double)
  with hi um have "uint um = 2 * sint hi + 1" by simp
  with hi um show ?thesis by blast
qed

text \<open>
  Claim C7. For every width \<open>b\<close> from 1 to 64, \<^verbatim>\<open>min_value(b)\<close> is at most 0 and
  \<^verbatim>\<open>max_value(b)\<close> is at least 0; for every \<open>b\<close> from 1 to 63,
  \<^verbatim>\<open>max_value_unsigned(b)\<close> is twice \<^verbatim>\<open>max_value(b)\<close> plus one.
\<close>

theorem range_relations:
  "(1 \<le> b \<and> b \<le> 64 \<longrightarrow>
      (\<exists>lo hi. min_value b = Inr lo \<and> max_value b = Inr hi \<and> sint lo \<le> 0 \<and> 0 \<le> sint hi)) \<and>
   (1 \<le> b \<and> b \<le> 63 \<longrightarrow>
      (\<exists>hi um. max_value b = Inr hi \<and> max_value_unsigned b = Inr um \<and>
         uint um = 2 * sint hi + 1))"
proof (intro conjI impI)
  assume "1 \<le> b \<and> b \<le> 64"
  then have "1 \<le> b" "b \<le> 63 \<or> b = 64" using width_le_64_cases by blast+
  then show "\<exists>lo hi. min_value b = Inr lo \<and> max_value b = Inr hi \<and> sint lo \<le> 0 \<and> 0 \<le> sint hi"
    using range_signs_small [of b] range_signs_64 by blast
next
  assume "1 \<le> b \<and> b \<le> 63"
  then show "\<exists>hi um. max_value b = Inr hi \<and> max_value_unsigned b = Inr um \<and>
         uint um = 2 * sint hi + 1"
    using unsigned_is_twice_signed [of b] by blast
qed

theorem range_relations_witness:
  "(1::uint8) \<le> 16 \<and> (16::uint8) \<le> 63 \<and>
   (\<exists>lo hi. min_value 16 = Inr lo \<and> max_value 16 = Inr hi \<and> sint lo \<le> 0 \<and> 0 \<le> sint hi) \<and>
   (\<exists>hi um. max_value 16 = Inr hi \<and> max_value_unsigned 16 = Inr um \<and>
         uint um = 2 * sint hi + 1)"
  using range_relations [of 16] by simp

section \<open>The width-plus-one formula at large widths\<close>

lemma unat_width_succ: "(c::uint8) \<le> 254 \<Longrightarrow> unat (c + 1) = unat c + 1"
  by (simp add: word_le_nat_alt unat_word_ariths)

lemma char_small:
  assumes "1 \<le> (c::uint8)" "c \<le> 62"
  shows "1 \<le> c + 1" "c + 1 \<le> 63" "unat (c + 1) - 1 = unat c" "c \<le> 63"
  using assms unat_width_succ [of c]
  by (simp_all add: word_le_nat_alt)

lemma char_le_63_cases: "(c::uint8) \<le> 63 \<Longrightarrow> c \<le> 62 \<or> c = 63"
  by (simp add: word_le_nat_alt word_eq_iff_unsigned [where 'a = nat]) arith

lemma char_large:
  assumes "64 \<le> (c::uint8)" "c \<le> 254"
  shows "64 \<le> c + 1"
  using assms unat_width_succ [of c] by (simp add: word_le_nat_alt)

lemma unsignedCharMax_small:
  assumes "1 \<le> char_bit p" "char_bit p \<le> 62"
  shows "\<exists>w um. unsignedCharMax p = Inr w \<and> max_value_unsigned (char_bit p) = Inr um \<and>
           sint w = 2 ^ unat (char_bit p) - 1 \<and> uint um = 2 ^ unat (char_bit p) - 1 \<and> w = um"
proof -
  note c = char_small [OF assms]
  have w: "unsignedCharMax p = Inr (push_bit (unat (char_bit p)) 1 - 1)"
    using width_small(1,2) [OF c(1,2)] c(3) by (simp add: unsignedCharMax_eq max_value_def)
  have um: "max_value_unsigned (char_bit p) = Inr (push_bit (unat (char_bit p)) 1 - 1)"
    using width_small(1,2) [OF assms(1) c(4)] by (simp add: max_value_unsigned_def)
  have n: "unat (char_bit p) < 63"
    using assms(2) by (simp add: word_le_nat_alt)
  show ?thesis using w um n by (simp add: sint_p2_m1 uint_p2_m1)
qed

lemma unsignedCharMax_63:
  assumes "char_bit p = 63"
  shows "\<exists>w um. unsignedCharMax p = Inr w \<and> max_value_unsigned (char_bit p) = Inr um \<and>
           sint w = 2 ^ unat (char_bit p) - 1 \<and> uint um = 2 ^ unat (char_bit p) - 1 \<and> w = um"
  using assms
  by (simp add: unsignedCharMax_eq max_value_def max_value_unsigned_def mask_eq_exp_minus_1)

lemma unsignedCharMax_large:
  assumes "64 \<le> char_bit p" "char_bit p \<le> 254"
  shows "\<exists>w um. unsignedCharMax p = Inr w \<and> sint w = 2 ^ 63 - 1 \<and>
           max_value_unsigned (char_bit p) = Inr um \<and> uint um = 2 ^ 64 - 1 \<and> w \<noteq> um"
  using max_value_large [OF char_large [OF assms]] max_value_unsigned_large [OF assms(1)]
    sint_LLONG_MAX uint_ULLONG_MAX
  by (simp add: unsignedCharMax_eq mask_eq_exp_minus_1)

text \<open>
  Where \<open>char_bit + 1\<close> fits the 8-bit parameter of \<^verbatim>\<open>max_value\<close>, that is for every
  \<open>char_bit\<close> up to 254, the width-plus-one formula gives \<open>2 ^ char_bit - 1\<close> for widths
  from 1 to 63 and \<open>2 ^ 63 - 1\<close> for widths from 64 on.
\<close>

lemma unsignedCharMax_below_255:
  "(1 \<le> char_bit p \<and> char_bit p \<le> 63 \<longrightarrow>
      (\<exists>w um. unsignedCharMax p = Inr w \<and> max_value_unsigned (char_bit p) = Inr um \<and>
         sint w = 2 ^ unat (char_bit p) - 1 \<and> uint um = 2 ^ unat (char_bit p) - 1 \<and> w = um)) \<and>
   (64 \<le> char_bit p \<and> char_bit p \<le> 254 \<longrightarrow>
      (\<exists>w um. unsignedCharMax p = Inr w \<and> sint w = 2 ^ 63 - 1 \<and>
         max_value_unsigned (char_bit p) = Inr um \<and> uint um = 2 ^ 64 - 1 \<and> w \<noteq> um))"
proof (intro conjI impI)
  assume "1 \<le> char_bit p \<and> char_bit p \<le> 63"
  then have "1 \<le> char_bit p" "char_bit p \<le> 62 \<or> char_bit p = 63"
    using char_le_63_cases by blast+
  then show "\<exists>w um. unsignedCharMax p = Inr w \<and> max_value_unsigned (char_bit p) = Inr um \<and>
         sint w = 2 ^ unat (char_bit p) - 1 \<and> uint um = 2 ^ unat (char_bit p) - 1 \<and> w = um"
    using unsignedCharMax_small [of p] unsignedCharMax_63 [of p] by blast
next
  assume "64 \<le> char_bit p \<and> char_bit p \<le> 254"
  then show "\<exists>w um. unsignedCharMax p = Inr w \<and> sint w = 2 ^ 63 - 1 \<and>
         max_value_unsigned (char_bit p) = Inr um \<and> uint um = 2 ^ 64 - 1 \<and> w \<noteq> um"
    using unsignedCharMax_large [of p] by blast
qed

lemma unsignedCharMax_below_255_at_8_and_64:
  "1 \<le> char_bit unix64_descriptor \<and> char_bit unix64_descriptor \<le> 63 \<and>
   unsignedCharMax unix64_descriptor = Inr 255 \<and>
   max_value_unsigned (char_bit unix64_descriptor) = Inr 255 \<and>
   64 \<le> char_bit (unix64_descriptor\<lparr>char_bit := 64\<rparr>) \<and>
   char_bit (unix64_descriptor\<lparr>char_bit := 64\<rparr>) \<le> 254 \<and>
   (\<exists>w. unsignedCharMax (unix64_descriptor\<lparr>char_bit := 64\<rparr>) = Inr w \<and> sint w = 2 ^ 63 - 1)"
  using unsignedCharMax_below_255 [of unix64_descriptor]
    unsignedCharMax_below_255 [of "unix64_descriptor\<lparr>char_bit := 64\<rparr>"]
  by (auto simp add: descriptor_fields unsignedCharMax_eq max_value_9 max_value_unsigned_def)

text \<open>
  Claim C10. For every \<open>char_bit\<close> from 1 to 63, \<^verbatim>\<open>unsignedCharMax()\<close> equals
  \<^verbatim>\<open>max_value_unsigned(char_bit)\<close>, that is \<open>2 ^ char_bit - 1\<close>; for every \<open>char_bit\<close> of
  64 or more it returns \<open>2 ^ 63 - 1\<close>, which differs from
  \<^verbatim>\<open>max_value_unsigned(char_bit)\<close>, which is \<open>2 ^ 64 - 1\<close>. The code departs from this at
  \<open>char_bit = 255\<close>: the argument \<open>char_bit + 1 = 256\<close> is narrowed to the
  \<^verbatim>\<open>std::uint8_t\<close> value 0, and \<^verbatim>\<open>max_value\<close> is entered against its own assertion
  \<^verbatim>\<open>bit > 0\<close>, so no value is returned. The theorem evaluates the code at a descriptor
  with that width.
\<close>

theorem unsignedCharMax_255_assertion:
  "64 \<le> char_bit (unix64_descriptor\<lparr>char_bit := 255\<rparr>) \<and>
   (word_of_nat (unat (char_bit (unix64_descriptor\<lparr>char_bit := 255\<rparr>)) + 1) :: uint8) = 0 \<and>
   unsignedCharMax (unix64_descriptor\<lparr>char_bit := 255\<rparr>) = Inl AssertionFailed \<and>
   unsignedCharMax (unix64_descriptor\<lparr>char_bit := 255\<rparr>) \<noteq> Inr (drop_bit 1 (NOT 0)) \<and>
   max_value_unsigned (char_bit (unix64_descriptor\<lparr>char_bit := 255\<rparr>)) = Inr (NOT 0)"
  by (simp add: unsignedCharMax_def max_value_def max_value_unsigned_def)

section \<open>Failure of the platform lookup\<close>

lemma first_loaded_None_iff:
  "(first_loaded load cs = None) = (\<forall>c \<in> set cs. load c = None)"
  by (induction cs) (auto split: option.splits)

lemma no_preset_label: "preset_of_label ''nonexistent-platform-xyz'' = None"
  by (simp add: preset_of_label_def)

text \<open>
  Claim C6. For every descriptor, a call of \<^verbatim>\<open>set\<close> with a platform string that is no
  preset label and for which no candidate file loads, as
  \<^verbatim>\<open>set("nonexistent-platform-xyz", err, {"/tmp"})\<close>, returns failure, stores a message
  that is not empty in the error output parameter, and leaves the descriptor, every
  field of it, as it was before the call.
\<close>

theorem set_string_unknown:
  assumes "preset_of_label platformstr = None"
    and "\<forall>c \<in> set (candidates platformstr paths (exe_dir env)). load_file env c = None"
  shows "\<exists>msg. set_string env platformstr errstr paths debug p = (False, msg, p) \<and> msg \<noteq> []"
proof -
  from assms(2)
  have "first_loaded (load_file env) (candidates platformstr paths (exe_dir env)) = None"
    by (simp only: first_loaded_None_iff)
  with assms(1) show ?thesis by (simp add: set_string_def)
qed

theorem set_string_unknown_witness:
  "preset_of_label ''nonexistent-platform-xyz'' = None \<and>
   candidates ''nonexistent-platform-xyz'' [''/tmp''] (exe_dir empty_env) =
     [''nonexistent-platform-xyz'', ''/tmp/nonexistent-platform-xyz'',
      ''/usr/bin/nonexistent-platform-xyz''] \<and>
   set_string empty_env ''nonexistent-platform-xyz'' [] [''/tmp''] False unix64_descriptor =
     (False, ''unrecognized platform: nonexistent-platform-xyz'', unix64_descriptor)"
proof -
  have a: "preset_of_label ''nonexistent-platform-xyz'' = None"
    by (rule no_preset_label)
  have b: "\<forall>c \<in> set (candidates ''nonexistent-platform-xyz'' [''/tmp''] (exe_dir empty_env)).
      load_file empty_env c = None"
    by (simp add: empty_env_def)
  have c: "candidates ''nonexistent-platform-xyz'' [''/tmp''] (exe_dir empty_env) =
     [''nonexistent-platform-xyz'', ''/tmp/nonexistent-platform-xyz'',
      ''/usr/bin/nonexistent-platform-xyz'']"
    by (simp add: candidates_def resolve_def empty_env_def)
  from set_string_unknown [OF a b, of "[]" False unix64_descriptor]
  obtain msg where
    m: "set_string empty_env ''nonexistent-platform-xyz'' [] [''/tmp''] False unix64_descriptor =
      (False, msg, unix64_descriptor)" by blast
  have "msg = ''unrecognized platform: nonexistent-platform-xyz''"
    using m a by (simp add: set_string_def split: option.splits)
  with m a c show ?thesis by simp
qed

section \<open>The long-long family in the limits defines\<close>

lemma populated_unix64: "populated unix64_descriptor"
  by (simp add: populated_def unix64_descriptor_def)

lemma range_defined:
  assumes "0 < b"
  shows "\<exists>lo hi um. min_value b = Inr lo \<and> max_value b = Inr hi \<and> max_value_unsigned b = Inr um"
  using assms by (simp add: min_value_def max_value_def max_value_unsigned_def)

lemma getLimitsDefines_old:
  assumes "populated p"
  shows "\<exists>ds. getLimitsDefines_c99 p False = Inr ds \<and> fst ` set ds \<inter> long_long_macros = {}"
proof -
  from assms have "0 < int_bit p" "0 < long_bit p" by (simp_all add: populated_def)
  from range_defined [OF this(1)] range_defined [OF this(2)]
  obtain ilo ihi llo lhi where
    "min_value (int_bit p) = Inr ilo" "max_value (int_bit p) = Inr ihi"
    "min_value (long_bit p) = Inr llo" "max_value (long_bit p) = Inr lhi" by blast
  then show ?thesis
    by (simp add: getLimitsDefines_c99_def define_signed_def long_long_macros_def)
qed

lemma getLimitsDefines_new:
  assumes "populated p"
  shows "\<exists>ds. getLimitsDefines_c99 p True = Inr ds \<and> long_long_macros \<subseteq> fst ` set ds"
proof -
  from assms have "0 < int_bit p" "0 < long_bit p" "0 < long_long_bit p"
    by (simp_all add: populated_def)
  from range_defined [OF this(1)] range_defined [OF this(2)] range_defined [OF this(3)]
  obtain ilo ihi llo lhi xlo xhi xum where
    "min_value (int_bit p) = Inr ilo" "max_value (int_bit p) = Inr ihi"
    "min_value (long_bit p) = Inr llo" "max_value (long_bit p) = Inr lhi"
    "min_value (long_long_bit p) = Inr xlo" "max_value (long_long_bit p) = Inr xhi"
    "max_value_unsigned (long_long_bit p) = Inr xum" by blast
  then show ?thesis
    by (simp add: getLimitsDefines_c99_def define_signed_def define_unsigned_def
        long_long_macros_def)
qed

text \<open>
  Claim C8. For every populated descriptor, \<^verbatim>\<open>getLimitsDefines\<close> is a function of the
  descriptor and the standard alone; for a standard before C99 its output has none of
  the macros \<^verbatim>\<open>LLONG_MIN\<close>, \<^verbatim>\<open>LLONG_MAX\<close>, \<^verbatim>\<open>ULLONG_MAX\<close>, and for C99 or a
  later standard it has all three. The overload for C++ standards does the same with
  C++11 as the first standard that has them.
\<close>

theorem getLimitsDefines_long_long:
  assumes "populated p"
  shows "(cstd < 1999 \<longrightarrow>
            (\<exists>ds. getLimitsDefines_cstd p cstd = Inr ds \<and>
               fst ` set ds \<inter> long_long_macros = {})) \<and>
         (1999 \<le> cstd \<longrightarrow>
            (\<exists>ds. getLimitsDefines_cstd p cstd = Inr ds \<and>
               long_long_macros \<subseteq> fst ` set ds)) \<and>
         (cppstd < 2011 \<longrightarrow>
            (\<exists>ds. getLimitsDefines_cppstd p cppstd = Inr ds \<and>
               fst ` set ds \<inter> long_long_macros = {})) \<and>
         (2011 \<le> cppstd \<longrightarrow>
            (\<exists>ds. getLimitsDefines_cppstd p cppstd = Inr ds \<and>
               long_long_macros \<subseteq> fst ` set ds))"
  using getLimitsDefines_old [OF assms] getLimitsDefines_new [OF assms]
  by (simp add: getLimitsDefines_cstd_def getLimitsDefines_cppstd_def)

theorem getLimitsDefines_long_long_witness:
  "populated unix64_descriptor \<and>
   (\<exists>ds. getLimitsDefines_cstd unix64_descriptor 1989 = Inr ds \<and>
      fst ` set ds \<inter> long_long_macros = {}) \<and>
   (\<exists>ds. getLimitsDefines_cstd unix64_descriptor 1999 = Inr ds \<and>
      long_long_macros \<subseteq> fst ` set ds) \<and>
   (\<exists>ds. getLimitsDefines_cppstd unix64_descriptor 2003 = Inr ds \<and>
      fst ` set ds \<inter> long_long_macros = {}) \<and>
   (\<exists>ds. getLimitsDefines_cppstd unix64_descriptor 2011 = Inr ds \<and>
      long_long_macros \<subseteq> fst ` set ds)"
  using getLimitsDefines_long_long [OF populated_unix64, of 1989 2003]
    getLimitsDefines_long_long [OF populated_unix64, of 1999 2011] populated_unix64
  by simp

end
